theory Spec2Isabelle
  imports Complex_Main "HOL-Library.Sublist" "HOL-Library.Stream"
begin

section \<open>Python values and arithmetic\<close>

text \<open>
  The plugins are Python classes whose methods take numbers or strings and return a number
  or a string. Python floats are idealised as the reals: rounding, infinities and NaN are
  outside the model. A method either returns a value or raises; a raise is the left
  summand of the result type. The diagnostic \<^verbatim>\<open>print\<close> calls write to standard
  output only and are left out.
\<close>

datatype py_error = ZeroDivisionError

datatype py_value = Num real | CNum complex | Str string

text \<open>
  True division \<^verbatim>\<open>a / b\<close>: raises \<^verbatim>\<open>ZeroDivisionError\<close> on a zero divisor.
\<close>

definition py_truediv :: "real \<Rightarrow> real \<Rightarrow> py_error + real" where
  "py_truediv a b = (if b = 0 then Inl ZeroDivisionError else Inr (a / b))"

text \<open>
  Exponentiation \<^verbatim>\<open>base ** exponent\<close> on floats, case by case as the interpreter
  does it: anything to the power zero is one; zero to a negative power raises; a negative
  base with an integral exponent takes the sign from the exponent's parity; a negative base
  with a fractional exponent gives a complex number in polar form.
\<close>

definition py_pow :: "real \<Rightarrow> real \<Rightarrow> py_error + py_value" where
  "py_pow b e =
     (if e = 0 then Inr (Num 1)
      else if b = 0 then (if e < 0 then Inl ZeroDivisionError else Inr (Num 0))
      else if 0 < b then Inr (Num (b powr e))
      else if of_int \<lfloor>e\<rfloor> = e
        then Inr (Num (if even \<lfloor>e\<rfloor> then (- b) powr e else - ((- b) powr e)))
      else Inr (CNum (Complex ((- b) powr e * cos (pi * e)) ((- b) powr e * sin (pi * e)))))"

section \<open>Python strings\<close>

text \<open>
  A string is a list of characters; a character outside ASCII is written as its UTF-8
  bytes. Case conversion maps the letters A to Z and a to z and leaves every other
  character alone: it is Python's on ASCII text, which is what the tables hold. Python's
  case mapping of letters outside ASCII is not modelled.
\<close>

definition digit_char :: "nat \<Rightarrow> char" where
  "digit_char d = ''0123456789'' ! d"

text \<open>\<^verbatim>\<open>str(n)\<close> and \<^verbatim>\<open>f"{n}"\<close> for an integer: decimal digits, with a sign when negative.\<close>

function str_nat :: "nat \<Rightarrow> string" where
  "str_nat n = (if n < 10 then [digit_char n] else str_nat (n div 10) @ [digit_char (n mod 10)])"
  by pat_completeness auto
termination
  by (relation "measure id") auto

declare str_nat.simps [simp del]

definition str_int :: "int \<Rightarrow> string" where
  "str_int i = (if i < 0 then ''-'' @ str_nat (nat (- i)) else str_nat (nat i))"

definition ascii_uppercase :: string where
  "ascii_uppercase = ''ABCDEFGHIJKLMNOPQRSTUVWXYZ''"

definition ascii_lowercase :: string where
  "ascii_lowercase = ''abcdefghijklmnopqrstuvwxyz''"

definition lower_char :: "char \<Rightarrow> char" where
  "lower_char c =
     (case map_of (zip ascii_uppercase ascii_lowercase) c of None \<Rightarrow> c | Some l \<Rightarrow> l)"

definition upper_char :: "char \<Rightarrow> char" where
  "upper_char c =
     (case map_of (zip ascii_lowercase ascii_uppercase) c of None \<Rightarrow> c | Some u \<Rightarrow> u)"

definition is_cased :: "char \<Rightarrow> bool" where
  "is_cased c = (c \<in> set (ascii_uppercase @ ascii_lowercase))"

text \<open>\<^verbatim>\<open>s.lower()\<close>.\<close>

definition lower :: "string \<Rightarrow> string" where
  "lower s = map lower_char s"

text \<open>
  \<^verbatim>\<open>s.title()\<close>: a letter that follows a letter is lowered, any other letter is raised.
\<close>

fun title_from :: "bool \<Rightarrow> string \<Rightarrow> string" where
  "title_from previous_is_cased [] = []"
| "title_from previous_is_cased (c # cs) =
     (if previous_is_cased then lower_char c else upper_char c) # title_from (is_cased c) cs"

definition title :: "string \<Rightarrow> string" where
  "title s = title_from False s"

text \<open>\<^verbatim>\<open>needle in haystack\<close> on strings: a scan for the first position where \<open>needle\<close> starts.\<close>

fun str_in :: "string \<Rightarrow> string \<Rightarrow> bool" where
  "str_in needle [] = (needle = [])"
| "str_in needle (c # cs) = (prefix needle (c # cs) \<or> str_in needle cs)"

text \<open>
  \<^verbatim>\<open>str(x)\<close> for a float whose shortest decimal form has at most two fractional digits,
  as every price of the table has: the integer part, a point, and the fractional digits
  without a trailing zero, at least one.
\<close>

definition str_float :: "real \<Rightarrow> string" where
  "str_float x =
     (let cents = nat \<lfloor>\<bar>x\<bar> * 100\<rfloor> in
      (if x < 0 then ''-'' else '''') @ str_nat (cents div 100) @ ''.'' @
      (if cents mod 10 = 0 then [digit_char (cents div 10 mod 10)]
       else [digit_char (cents div 10 mod 10), digit_char (cents mod 10)]))"

text \<open>Rounding to the nearest integer, a tie going to the even neighbour.\<close>

definition round_half_even :: "real \<Rightarrow> int" where
  "round_half_even x =
     (let f = \<lfloor>x\<rfloor>; d = x - of_int f in
      if d < 1 / 2 then f else if 1 / 2 < d then f + 1 else if even f then f else f + 1)"

text \<open>The format \<^verbatim>\<open>{x:.2f}\<close>: two fractional digits, correctly rounded.\<close>

definition fmt_2f :: "real \<Rightarrow> string" where
  "fmt_2f x =
     (let cents = nat (round_half_even (\<bar>x\<bar> * 100)) in
      (if x < 0 then ''-'' else '''') @ str_nat (cents div 100) @ ''.'' @
      [digit_char (cents div 10 mod 10), digit_char (cents mod 10)])"

section \<open>The random source\<close>

text \<open>
  The module \<^verbatim>\<open>random\<close> keeps a global generator. It is modelled as a stream of raw
  draws that is passed in and handed back: \<^verbatim>\<open>randint(a, b)\<close> (called with \<open>a \<le> b\<close>) maps
  one draw into \<open>a..b\<close>, \<^verbatim>\<open>choice(xs)\<close> (called with a non-empty list) maps one draw to an
  index.
\<close>

type_synonym random_source = "nat stream"

definition randint :: "int \<Rightarrow> int \<Rightarrow> random_source \<Rightarrow> int \<times> random_source" where
  "randint a b g = (a + int (shd g mod nat (b - a + 1)), stl g)"

definition choice :: "'a list \<Rightarrow> random_source \<Rightarrow> 'a \<times> random_source" where
  "choice xs g = (xs ! (shd g mod length xs), stl g)"

section \<open>MathPlugin\<close>

text \<open>
  \<^verbatim>\<open>MathPlugin.divide\<close>, \<^verbatim>\<open>power\<close>, \<^verbatim>\<open>square_root\<close> and
  \<^verbatim>\<open>percentage\<close>. The names \<open>divide\<close> and \<open>power\<close> are constants of HOL, hence
  the suffix.
\<close>

definition divide_fn :: "real \<Rightarrow> real \<Rightarrow> py_error + py_value" where
  "divide_fn number1 number2 =
     (if number2 = 0 then Inr (Str ''Error: Cannot divide by zero'')
      else case py_truediv number1 number2 of
             Inl err \<Rightarrow> Inl err
           | Inr result \<Rightarrow> Inr (Num result))"

definition power_fn :: "real \<Rightarrow> real \<Rightarrow> py_error + py_value" where
  "power_fn base exponent = py_pow base exponent"

definition square_root :: "real \<Rightarrow> py_error + py_value" where
  "square_root number =
     (if number < 0 then Inr (Str ''Error: Cannot calculate square root of negative number'')
      else py_pow number 0.5)"

definition percentage :: "real \<Rightarrow> real \<Rightarrow> py_error + py_value" where
  "percentage part whole =
     (if whole = 0 then Inr (Str ''Error: Cannot calculate percentage with zero as whole'')
      else case py_truediv part whole of
             Inl err \<Rightarrow> Inl err
           | Inr q \<Rightarrow> Inr (Num (q * 100)))"

section \<open>WeatherPlugin\<close>

record weather =
  w_temp :: int
  w_condition :: string
  w_humidity :: int

definition weather_data :: "string \<rightharpoonup> weather" where
  "weather_data = map_of
     [(''new york'', \<lparr>w_temp = 72, w_condition = ''Partly Cloudy'', w_humidity = 65\<rparr>),
      (''london'', \<lparr>w_temp = 59, w_condition = ''Rainy'', w_humidity = 80\<rparr>),
      (''tokyo'', \<lparr>w_temp = 68, w_condition = ''Sunny'', w_humidity = 55\<rparr>),
      (''paris'', \<lparr>w_temp = 64, w_condition = ''Cloudy'', w_humidity = 70\<rparr>),
      (''sydney'', \<lparr>w_temp = 77, w_condition = ''Sunny'', w_humidity = 60\<rparr>),
      (''mumbai'', \<lparr>w_temp = 86, w_condition = ''Humid'', w_humidity = 85\<rparr>),
      (''dubai'', \<lparr>w_temp = 95, w_condition = ''Hot and Sunny'', w_humidity = 45\<rparr>)]"

text \<open>The degree sign of the report, U+00B0, in UTF-8.\<close>

definition degree :: string where
  "degree = [CHR 0xC2, CHR 0xB0]"

text \<open>
  The report of \<^verbatim>\<open>get_current_weather\<close>; the source writes the same f-string in both
  branches.
\<close>

definition weather_report :: "string \<Rightarrow> int \<Rightarrow> string \<Rightarrow> int \<Rightarrow> string" where
  "weather_report city t c h =
     ''Weather in '' @ title city @ '':\<newline>'' @
     ''Temperature: '' @ str_int t @ degree @ ''F\<newline>'' @
     ''Condition: '' @ c @ ''\<newline>'' @
     ''Humidity: '' @ str_int h @ ''%''"

definition get_current_weather :: "random_source \<Rightarrow> string \<Rightarrow> string \<times> random_source" where
  "get_current_weather g city =
     (let city_lower = lower city in
      case weather_data city_lower of
        Some weather \<Rightarrow>
          (weather_report city (w_temp weather) (w_condition weather) (w_humidity weather), g)
      | None \<Rightarrow>
          (let (temp, g1) = randint 50 90 g;
               conditions = [''Sunny'', ''Cloudy'', ''Rainy'', ''Partly Cloudy''];
               (condition, g2) = choice conditions g1;
               (humidity, g3) = randint 40 90 g2
           in (weather_report city temp condition humidity, g3)))"

definition should_bring_umbrella :: "random_source \<Rightarrow> string \<Rightarrow> string \<times> random_source" where
  "should_bring_umbrella g city =
     (let city_lower = lower city in
      case weather_data city_lower of
        Some weather \<Rightarrow>
          (let condition = lower (w_condition weather) in
           if str_in ''rain'' condition \<or> str_in ''storm'' condition
           then (''Yes, bring an umbrella! It's '' @ w_condition weather @ '' in '' @
                 title city @ ''.'', g)
           else (''No umbrella needed. It's '' @ w_condition weather @ '' in '' @
                 title city @ ''.'', g))
      | None \<Rightarrow>
          (''Weather data not available for '' @ city @
           '', but it's always good to be prepared!'', g))"

section \<open>DatabasePlugin\<close>

text \<open>
  The rows of \<^verbatim>\<open>_products\<close> and \<^verbatim>\<open>_orders\<close> are dictionaries with fixed keys, here
  records. The methods read the tables through \<^verbatim>\<open>self\<close>, which is their first
  argument here too; \<open>DatabasePlugin\<close> holds the tables of the class. The table
  \<^verbatim>\<open>_users\<close> is read by none of the methods below and is left out.
\<close>

record product =
  p_id :: int
  p_name :: string
  p_price :: real
  p_stock :: int
  p_category :: string

record order =
  o_id :: int
  o_user_id :: int
  o_product_id :: int
  o_quantity :: int
  o_status :: string

record database_plugin =
  products :: "product list"
  orders :: "order list"

definition DatabasePlugin :: database_plugin where
  "DatabasePlugin = \<lparr>
     products =
       [\<lparr>p_id = 101, p_name = ''Laptop'', p_price = 999.99, p_stock = 15, p_category = ''Electronics''\<rparr>,
        \<lparr>p_id = 102, p_name = ''Mouse'', p_price = 29.99, p_stock = 50, p_category = ''Electronics''\<rparr>,
        \<lparr>p_id = 103, p_name = ''Keyboard'', p_price = 79.99, p_stock = 30, p_category = ''Electronics''\<rparr>,
        \<lparr>p_id = 104, p_name = ''Monitor'', p_price = 299.99, p_stock = 8, p_category = ''Electronics''\<rparr>,
        \<lparr>p_id = 105, p_name = ''Desk Chair'', p_price = 199.99, p_stock = 12, p_category = ''Furniture''\<rparr>,
        \<lparr>p_id = 106, p_name = ''Desk'', p_price = 399.99, p_stock = 5, p_category = ''Furniture''\<rparr>],
     orders =
       [\<lparr>o_id = 1001, o_user_id = 1, o_product_id = 101, o_quantity = 1, o_status = ''Delivered''\<rparr>,
        \<lparr>o_id = 1002, o_user_id = 2, o_product_id = 102, o_quantity = 2, o_status = ''Shipped''\<rparr>,
        \<lparr>o_id = 1003, o_user_id = 1, o_product_id = 104, o_quantity = 1, o_status = ''Processing''\<rparr>,
        \<lparr>o_id = 1004, o_user_id = 4, o_product_id = 105, o_quantity = 3, o_status = ''Delivered''\<rparr>]\<rparr>"

text \<open>
  \<^verbatim>\<open>search_products\<close>. The list comprehension is a \<open>filter\<close>; the loop that appends one
  f-string per product is a left fold, and \<open>product_line\<close> is that f-string.
\<close>

definition product_line :: "product \<Rightarrow> string" where
  "product_line product =
     ''ID: '' @ str_int (p_id product) @ '', Name: '' @ p_name product @
     '', Price: $'' @ str_float (p_price product) @
     '', Stock: '' @ str_int (p_stock product) @ ''\<newline>''"

definition search_products :: "database_plugin \<Rightarrow> string \<Rightarrow> string" where
  "search_products self query =
     (let query_lower = lower query;
          matching_products =
            filter (\<lambda>p. str_in query_lower (lower (p_name p)) \<or>
                        str_in query_lower (lower (p_category p))) (products self)
      in if matching_products = []
         then ''No products found matching '' @ [CHR 0x27] @ query @ [CHR 0x27] @ ''.''
         else foldl (\<lambda>result product. result @ product_line product)
                (''Found '' @ str_nat (length matching_products) @ '' product(s):\<newline>\<newline>'')
                matching_products)"

text \<open>
  \<^verbatim>\<open>get_user_orders\<close>. \<open>order_line\<close> is the body of its loop: \<^verbatim>\<open>next(..., None)\<close> over the
  products with the order's product id is \<open>find\<close>, and the name falls back to
  \<^verbatim>\<open>"Unknown"\<close> when there is none.
\<close>

definition order_line :: "database_plugin \<Rightarrow> order \<Rightarrow> string" where
  "order_line self order =
     (let product = find (\<lambda>p. p_id p = o_product_id order) (products self);
          product_name = (case product of Some p \<Rightarrow> p_name p | None \<Rightarrow> ''Unknown'')
      in ''Order ID: '' @ str_int (o_id order) @ '', Product: '' @ product_name @
         '', Quantity: '' @ str_int (o_quantity order) @
         '', Status: '' @ o_status order @ ''\<newline>'')"

definition get_user_orders :: "database_plugin \<Rightarrow> int \<Rightarrow> string" where
  "get_user_orders self user_id =
     (let user_orders = filter (\<lambda>ord. o_user_id ord = user_id) (orders self)
      in if user_orders = []
         then ''No orders found for user ID '' @ str_int user_id @ ''.''
         else foldl (\<lambda>result order. result @ order_line self order)
                (''Orders for User ID '' @ str_int user_id @ '':\<newline>\<newline>'')
                user_orders)"

text \<open>
  \<^verbatim>\<open>check_stock\<close>. The two messages start with U+2713 and U+2717, in UTF-8 here.
\<close>

definition check_mark :: string where
  "check_mark = [CHR 0xE2, CHR 0x9C, CHR 0x93]"

definition cross_mark :: string where
  "cross_mark = [CHR 0xE2, CHR 0x9C, CHR 0x97]"

definition check_stock :: "database_plugin \<Rightarrow> int \<Rightarrow> int \<Rightarrow> string" where
  "check_stock self product_id quantity =
     (case find (\<lambda>p. p_id p = product_id) (products self) of
        None \<Rightarrow> ''Product with ID '' @ str_int product_id @ '' not found.''
      | Some product \<Rightarrow>
          if p_stock product \<ge> quantity
          then check_mark @ '' '' @ p_name product @ '' has '' @ str_int (p_stock product) @
               '' units in stock. '' @ str_int quantity @ '' units available.''
          else cross_mark @ '' '' @ p_name product @ '' only has '' @
               str_int (p_stock product) @ '' units in stock. Cannot fulfill order for '' @
               str_int quantity @ '' units.'')"

text \<open>
  \<^verbatim>\<open>get_total_inventory_value\<close>. \<^verbatim>\<open>sum\<close> adds from zero, left to right;
  \<open>inventory_line\<close> is the f-string of the loop, with the multiplication sign U+00D7 in
  UTF-8.
\<close>

definition times_sign :: string where
  "times_sign = [CHR 0xC3, CHR 0x97]"

definition inventory_line :: "product \<Rightarrow> string" where
  "inventory_line product =
     (let value = p_price product * of_int (p_stock product)
      in p_name product @ '': '' @ str_int (p_stock product) @ '' units '' @ times_sign @
         '' $'' @ str_float (p_price product) @ '' = $'' @ fmt_2f value @ ''\<newline>'')"

definition get_total_inventory_value :: "database_plugin \<Rightarrow> string" where
  "get_total_inventory_value self =
     (let total_value =
            foldl (\<lambda>acc p. acc + p_price p * of_int (p_stock p)) 0 (products self);
          result = foldl (\<lambda>result product. result @ inventory_line product)
                     ''Inventory Summary:\<newline>\<newline>'' (products self)
      in result @ ''\<newline>Total Inventory Value: $'' @ fmt_2f total_value)"

section \<open>Helper lemmas\<close>

lemmas str_nat_eval = str_int_def str_nat.simps digit_char_def

lemmas case_eval = lower_def lower_char_def upper_char_def is_cased_def
  ascii_uppercase_def ascii_lowercase_def title_def

lemma py_truediv_nonzero: "b \<noteq> 0 \<Longrightarrow> py_truediv a b = Inr (a / b)"
  by (simp add: py_truediv_def)

lemma py_pow_half: "0 \<le> n \<Longrightarrow> py_pow n (1 / 2) = Inr (Num (sqrt n))"
proof (cases "n = 0")
  case True
  then show ?thesis by (simp add: py_pow_def)
next
  case False
  assume "0 \<le> n"
  with False have pos: "0 < n" by simp
  have "n powr (1 / 2) = sqrt n" using pos by (simp add: powr_half_sqrt)
  then show ?thesis using pos by (simp add: py_pow_def)
qed

lemma str_in_sublist: "str_in needle hay \<longleftrightarrow> sublist needle hay"
  by (induction hay) (auto simp: sublist_Cons_right)

lemma str_in_empty: "str_in [] hay"
  by (cases hay) simp_all

lemma foldl_append_lines:
  "foldl (\<lambda>result x. result @ f x) init xs = init @ concat (map f xs)"
  by (induction xs arbitrary: init) simp_all

lemma find_absent: "\<forall>p\<in>set ps. \<not> P p \<Longrightarrow> find P ps = None"
  by (induction ps) simp_all

lemma find_unique:
  "distinct (map f ps) \<Longrightarrow> p \<in> set ps \<Longrightarrow> f p = k \<Longrightarrow> find (\<lambda>q. f q = k) ps = Some p"
  by (induction ps) (auto simp: image_iff)

section \<open>Properties of MathPlugin\<close>

text \<open>
  Claim C1. With a zero divisor, \<open>divide\<close> and \<open>percentage\<close> return their error text and
  do not raise, whatever the first argument; with a divisor \<open>b \<noteq> 0\<close>, \<open>divide a b\<close>
  returns the quotient \<open>a / b\<close>, and with \<open>whole \<noteq> 0\<close>, \<open>percentage part whole\<close> returns
  \<open>(part / whole) * 100\<close>.
\<close>

theorem divide_percentage_zero_guard:
  "divide_fn x 0 = Inr (Str ''Error: Cannot divide by zero'') \<and>
   percentage x 0 = Inr (Str ''Error: Cannot calculate percentage with zero as whole'') \<and>
   (b \<noteq> 0 \<longrightarrow> divide_fn a b = Inr (Num (a / b))) \<and>
   (whole \<noteq> 0 \<longrightarrow> percentage part whole = Inr (Num (part / whole * 100)))"
  by (simp add: divide_fn_def percentage_def py_truediv_nonzero)

theorem divide_percentage_zero_guard_witness:
  "divide_fn 7 0 = Inr (Str ''Error: Cannot divide by zero'') \<and>
   percentage 7 0 = Inr (Str ''Error: Cannot calculate percentage with zero as whole'') \<and>
   (4::real) \<noteq> 0 \<and> divide_fn 6 4 = Inr (Num (3 / 2)) \<and>
   (8::real) \<noteq> 0 \<and> percentage 2 8 = Inr (Num 25)"
  using divide_percentage_zero_guard [of 7 4 6 8 2] by simp

text \<open>
  Claim C2 says that \<open>power\<close> never raises. The method has no guard of the kind
  \<open>divide\<close>, \<open>percentage\<close> and \<open>square_root\<close> have: zero to a negative power raises
  \<^verbatim>\<open>ZeroDivisionError\<close>.
\<close>

theorem power_zero_negative_raises: "power_fn 0 (- 1) = Inl ZeroDivisionError"
  by (simp add: power_fn_def py_pow_def)

text \<open>
  Claim C3. For \<open>n < 0\<close>, \<open>square_root n\<close> returns its error text and does not raise; for
  \<open>n \<ge> 0\<close> it returns \<open>n ** 0.5\<close>, which is the square root of \<open>n\<close>.
\<close>

theorem square_root_domain:
  "(n < 0 \<longrightarrow>
      square_root n = Inr (Str ''Error: Cannot calculate square root of negative number'')) \<and>
   (0 \<le> n \<longrightarrow> square_root n = py_pow n 0.5 \<and> square_root n = Inr (Num (sqrt n)))"
  by (simp add: square_root_def py_pow_half)

theorem square_root_domain_witness:
  "(- 4 < (0::real) \<and>
      square_root (- 4) = Inr (Str ''Error: Cannot calculate square root of negative number'')) \<and>
   ((0::real) \<le> 9 \<and> square_root 9 = py_pow 9 0.5 \<and> square_root 9 = Inr (Num 3))"
proof -
  have "sqrt 9 = (3::real)" by (rule real_sqrt_unique) simp_all
  then show ?thesis
    using square_root_domain [of "- 4"] square_root_domain [of 9] by auto
qed

section \<open>Properties of WeatherPlugin\<close>

lemma randint_range:
  assumes "a \<le> b"
  shows "a \<le> fst (randint a b g) \<and> fst (randint a b g) \<le> b"
proof -
  let ?m = "nat (b - a + 1)"
  have "0 < ?m" using assms by simp
  then have "shd g mod ?m < ?m" by simp
  then have "int (shd g mod ?m) < b - a + 1" using assms by linarith
  then show ?thesis by (simp add: randint_def)
qed

lemma choice_member: "xs \<noteq> [] \<Longrightarrow> fst (choice xs g) \<in> set xs"
  by (simp add: choice_def)

lemma weather_data_keys:
  "weather_data k = Some w \<Longrightarrow>
     k \<in> {''new york'', ''london'', ''tokyo'', ''paris'', ''sydney'', ''mumbai'', ''dubai''}"
proof -
  assume "weather_data k = Some w"
  then have "(k, w) \<in> set
     [(''new york'', \<lparr>w_temp = 72, w_condition = ''Partly Cloudy'', w_humidity = 65\<rparr>),
      (''london'', \<lparr>w_temp = 59, w_condition = ''Rainy'', w_humidity = 80\<rparr>),
      (''tokyo'', \<lparr>w_temp = 68, w_condition = ''Sunny'', w_humidity = 55\<rparr>),
      (''paris'', \<lparr>w_temp = 64, w_condition = ''Cloudy'', w_humidity = 70\<rparr>),
      (''sydney'', \<lparr>w_temp = 77, w_condition = ''Sunny'', w_humidity = 60\<rparr>),
      (''mumbai'', \<lparr>w_temp = 86, w_condition = ''Humid'', w_humidity = 85\<rparr>),
      (''dubai'', \<lparr>w_temp = 95, w_condition = ''Hot and Sunny'', w_humidity = 45\<rparr>)]"
    unfolding weather_data_def by (rule map_of_SomeD)
  then show ?thesis by auto
qed

lemma lower_keys:
  "lower ''new york'' = ''new york''" "lower ''london'' = ''london''"
  "lower ''tokyo'' = ''tokyo''" "lower ''paris'' = ''paris''" "lower ''sydney'' = ''sydney''"
  "lower ''mumbai'' = ''mumbai''" "lower ''dubai'' = ''dubai''"
  by (simp_all add: lower_def lower_char_def ascii_uppercase_def ascii_lowercase_def)

lemma weather_keys_lower: "weather_data k = Some w \<Longrightarrow> lower k = k"
  using weather_data_keys [of k w] lower_keys by blast

text \<open>
  Claim C7. \<open>get_current_weather\<close> looks the city up by its lower-case form. For
  \<open>London\<close> it returns the stored record (59 degrees, Rainy, 80 percent) and leaves the
  random source alone; for every city whose lower-case form is a key it reports the stored
  record; for every city whose lower-case form is no key, and every random source, the
  report has a temperature in \<open>50..90\<close>, a humidity in \<open>40..90\<close> and a condition among
  Sunny, Cloudy, Rainy and Partly Cloudy.
\<close>

theorem current_weather_lookup_or_bounded:
  "get_current_weather g ''London'' =
     (''Weather in London:\<newline>Temperature: 59'' @ degree @
      ''F\<newline>Condition: Rainy\<newline>Humidity: 80%'', g) \<and>
   (weather_data (lower city) = Some w \<longrightarrow>
      get_current_weather g city =
        (weather_report city (w_temp w) (w_condition w) (w_humidity w), g)) \<and>
   (weather_data (lower city) = None \<longrightarrow>
      (\<exists>t c h. fst (get_current_weather g city) = weather_report city t c h \<and>
         50 \<le> t \<and> t \<le> 90 \<and> 40 \<le> h \<and> h \<le> 90 \<and>
         c \<in> {''Sunny'', ''Cloudy'', ''Rainy'', ''Partly Cloudy''}))"
proof (intro conjI impI)
  show "get_current_weather g ''London'' =
     (''Weather in London:\<newline>Temperature: 59'' @ degree @
      ''F\<newline>Condition: Rainy\<newline>Humidity: 80%'', g)"
    by (simp add: get_current_weather_def weather_data_def weather_report_def str_nat_eval case_eval)
next
  assume "weather_data (lower city) = Some w"
  then show "get_current_weather g city =
        (weather_report city (w_temp w) (w_condition w) (w_humidity w), g)"
    by (simp add: get_current_weather_def)
next
  assume absent: "weather_data (lower city) = None"
  let ?conditions = "[''Sunny'', ''Cloudy'', ''Rainy'', ''Partly Cloudy'']"
  obtain t g1 where t: "randint 50 90 g = (t, g1)" by (cases "randint 50 90 g")
  obtain c g2 where c: "choice ?conditions g1 = (c, g2)" by (cases "choice ?conditions g1")
  obtain h g3 where h: "randint 40 90 g2 = (h, g3)" by (cases "randint 40 90 g2")
  have res: "fst (get_current_weather g city) = weather_report city t c h"
    using absent t c h by (simp add: get_current_weather_def)
  have "50 \<le> t \<and> t \<le> 90" using randint_range [of 50 90 g] t by simp
  moreover have "40 \<le> h \<and> h \<le> 90" using randint_range [of 40 90 g2] h by simp
  moreover have "c \<in> set ?conditions" using choice_member [of ?conditions g1] c by simp
  ultimately show "\<exists>t c h. fst (get_current_weather g city) = weather_report city t c h \<and>
         50 \<le> t \<and> t \<le> 90 \<and> 40 \<le> h \<and> h \<le> 90 \<and>
         c \<in> {''Sunny'', ''Cloudy'', ''Rainy'', ''Partly Cloudy''}"
    using res by auto
qed

theorem current_weather_lookup_or_bounded_witness:
  "weather_data (lower ''TOKYO'') = Some \<lparr>w_temp = 68, w_condition = ''Sunny'', w_humidity = 55\<rparr> \<and>
   get_current_weather (sconst 7) ''TOKYO'' =
     (''Weather in Tokyo:\<newline>Temperature: 68'' @ degree @
      ''F\<newline>Condition: Sunny\<newline>Humidity: 55%'', sconst 7) \<and>
   weather_data (lower ''Atlantis'') = None \<and>
   (\<exists>t c h. fst (get_current_weather (sconst 7) ''Atlantis'') =
        weather_report ''Atlantis'' t c h \<and>
      50 \<le> t \<and> t \<le> 90 \<and> 40 \<le> h \<and> h \<le> 90 \<and>
      c \<in> {''Sunny'', ''Cloudy'', ''Rainy'', ''Partly Cloudy''})"
proof -
  let ?w = "\<lparr>w_temp = 68, w_condition = ''Sunny'', w_humidity = 55\<rparr>"
  have known: "weather_data (lower ''TOKYO'') = Some ?w"
    by (simp add: weather_data_def case_eval)
  have absent: "weather_data (lower ''Atlantis'') = None"
    by (simp add: weather_data_def case_eval)
  have report: "weather_report ''TOKYO'' (w_temp ?w) (w_condition ?w) (w_humidity ?w) =
      ''Weather in Tokyo:\<newline>Temperature: 68'' @ degree @
      ''F\<newline>Condition: Sunny\<newline>Humidity: 55%''"
    by (simp add: weather_report_def case_eval str_nat_eval)
  have "get_current_weather (sconst 7) ''TOKYO'' =
      (weather_report ''TOKYO'' (w_temp ?w) (w_condition ?w) (w_humidity ?w), sconst 7)"
    using current_weather_lookup_or_bounded [of "sconst 7" "''TOKYO''" ?w] known by blast
  then have tokyo: "get_current_weather (sconst 7) ''TOKYO'' =
     (''Weather in Tokyo:\<newline>Temperature: 68'' @ degree @
      ''F\<newline>Condition: Sunny\<newline>Humidity: 55%'', sconst 7)"
    by (simp only: report)
  have atl: "\<exists>t c h. fst (get_current_weather (sconst 7) ''Atlantis'') =
        weather_report ''Atlantis'' t c h \<and>
      50 \<le> t \<and> t \<le> 90 \<and> 40 \<le> h \<and> h \<le> 90 \<and>
      c \<in> {''Sunny'', ''Cloudy'', ''Rainy'', ''Partly Cloudy''}"
    using current_weather_lookup_or_bounded [of "sconst 7" "''Atlantis''"] absent by blast
  show ?thesis using known tokyo absent atl by (intro conjI)
qed

lemma umbrella_known:
  "weather_data (lower city) = Some w \<Longrightarrow>
   should_bring_umbrella g city =
     (if sublist ''rain'' (lower (w_condition w)) \<or> sublist ''storm'' (lower (w_condition w))
      then (''Yes, bring an umbrella! It's '' @ w_condition w @ '' in '' @ title city @ ''.'', g)
      else (''No umbrella needed. It's '' @ w_condition w @ '' in '' @ title city @ ''.'', g))"
  unfolding should_bring_umbrella_def Let_def str_in_sublist by (simp only: option.case)

lemma umbrella_absent:
  "weather_data (lower city) = None \<Longrightarrow>
   should_bring_umbrella g city =
     (''Weather data not available for '' @ city @
      '', but it's always good to be prepared!'', g)"
  unfolding should_bring_umbrella_def Let_def by (simp only: option.case)

text \<open>
  Claim C8. For a city that is a key of the weather table (and for any city whose lower-case
  form is one), \<open>should_bring_umbrella\<close> recommends an umbrella exactly when the stored
  condition, lowered, contains \<open>rain\<close> or \<open>storm\<close>, and says none is needed otherwise;
  for any other city it returns the neutral message. In every case the random source is
  handed back as it was received: no weather is synthesized.
\<close>

theorem umbrella_by_condition:
  "(weather_data city = Some w \<longrightarrow>
      should_bring_umbrella g city =
        (if sublist ''rain'' (lower (w_condition w)) \<or> sublist ''storm'' (lower (w_condition w))
         then (''Yes, bring an umbrella! It's '' @ w_condition w @ '' in '' @ title city @ ''.'', g)
         else (''No umbrella needed. It's '' @ w_condition w @ '' in '' @ title city @ ''.'', g))) \<and>
   (weather_data (lower city) = Some w \<longrightarrow>
      should_bring_umbrella g city =
        (if sublist ''rain'' (lower (w_condition w)) \<or> sublist ''storm'' (lower (w_condition w))
         then (''Yes, bring an umbrella! It's '' @ w_condition w @ '' in '' @ title city @ ''.'', g)
         else (''No umbrella needed. It's '' @ w_condition w @ '' in '' @ title city @ ''.'', g))) \<and>
   (weather_data (lower city) = None \<longrightarrow>
      should_bring_umbrella g city =
        (''Weather data not available for '' @ city @
         '', but it's always good to be prepared!'', g))"
proof (intro conjI impI)
  assume key: "weather_data city = Some w"
  then have "lower city = city" by (rule weather_keys_lower)
  with key have "weather_data (lower city) = Some w" by simp
  then show "should_bring_umbrella g city =
        (if sublist ''rain'' (lower (w_condition w)) \<or> sublist ''storm'' (lower (w_condition w))
         then (''Yes, bring an umbrella! It's '' @ w_condition w @ '' in '' @ title city @ ''.'', g)
         else (''No umbrella needed. It's '' @ w_condition w @ '' in '' @ title city @ ''.'', g))"
    by (rule umbrella_known)
next
  assume "weather_data (lower city) = Some w"
  then show "should_bring_umbrella g city =
        (if sublist ''rain'' (lower (w_condition w)) \<or> sublist ''storm'' (lower (w_condition w))
         then (''Yes, bring an umbrella! It's '' @ w_condition w @ '' in '' @ title city @ ''.'', g)
         else (''No umbrella needed. It's '' @ w_condition w @ '' in '' @ title city @ ''.'', g))"
    by (rule umbrella_known)
next
  assume "weather_data (lower city) = None"
  then show "should_bring_umbrella g city =
        (''Weather data not available for '' @ city @
         '', but it's always good to be prepared!'', g)"
    by (rule umbrella_absent)
qed

theorem umbrella_by_condition_witness:
  "weather_data ''london'' = Some \<lparr>w_temp = 59, w_condition = ''Rainy'', w_humidity = 80\<rparr> \<and>
   should_bring_umbrella (sconst 7) ''london'' =
     (''Yes, bring an umbrella! It's Rainy in London.'', sconst 7) \<and>
   weather_data (lower ''Tokyo'') = Some \<lparr>w_temp = 68, w_condition = ''Sunny'', w_humidity = 55\<rparr> \<and>
   should_bring_umbrella (sconst 7) ''Tokyo'' =
     (''No umbrella needed. It's Sunny in Tokyo.'', sconst 7) \<and>
   weather_data (lower ''Atlantis'') = None \<and>
   should_bring_umbrella (sconst 7) ''Atlantis'' =
     (''Weather data not available for Atlantis, but it's always good to be prepared!'',
      sconst 7)"
proof -
  let ?london = "\<lparr>w_temp = 59, w_condition = ''Rainy'', w_humidity = 80\<rparr>"
  let ?tokyo = "\<lparr>w_temp = 68, w_condition = ''Sunny'', w_humidity = 55\<rparr>"
  have key: "weather_data ''london'' = Some ?london"
    by (simp add: weather_data_def)
  have known: "weather_data (lower ''Tokyo'') = Some ?tokyo"
    by (simp add: weather_data_def case_eval)
  have absent: "weather_data (lower ''Atlantis'') = None"
    by (simp add: weather_data_def case_eval)
  have rainy: "sublist ''rain'' (lower (w_condition ?london))"
    by (simp add: str_in_sublist [symmetric] case_eval)
  have sunny: "\<not> (sublist ''rain'' (lower (w_condition ?tokyo)) \<or>
                  sublist ''storm'' (lower (w_condition ?tokyo)))"
    by (simp add: str_in_sublist [symmetric] case_eval)
  have titles: "title ''london'' = ''London''" "title ''Tokyo'' = ''Tokyo''"
    by (simp_all add: case_eval)
  have "should_bring_umbrella (sconst 7) ''london'' =
      (''Yes, bring an umbrella! It's '' @ w_condition ?london @ '' in '' @
       title ''london'' @ ''.'', sconst 7)"
    using umbrella_by_condition [of "''london''" ?london "sconst 7"] key rainy
    by (simp only: if_True simp_thms)
  then have r1: "should_bring_umbrella (sconst 7) ''london'' =
      (''Yes, bring an umbrella! It's Rainy in London.'', sconst 7)"
    by (simp add: titles)
  have "should_bring_umbrella (sconst 7) ''Tokyo'' =
      (''No umbrella needed. It's '' @ w_condition ?tokyo @ '' in '' @
       title ''Tokyo'' @ ''.'', sconst 7)"
    using umbrella_by_condition [of "''Tokyo''" ?tokyo "sconst 7"] known sunny
    by (simp only: if_False simp_thms)
  then have r2: "should_bring_umbrella (sconst 7) ''Tokyo'' =
      (''No umbrella needed. It's Sunny in Tokyo.'', sconst 7)"
    by (simp add: titles)
  have r3: "should_bring_umbrella (sconst 7) ''Atlantis'' =
     (''Weather data not available for Atlantis, but it's always good to be prepared!'',
      sconst 7)"
    using umbrella_by_condition [of "''Atlantis''" _ "sconst 7"] absent by simp
  show ?thesis using key r1 known r2 absent r3 by (intro conjI)
qed

section \<open>Properties of DatabasePlugin\<close>

lemma products_table:
  "products DatabasePlugin =
     [\<lparr>p_id = 101, p_name = ''Laptop'', p_price = 999.99, p_stock = 15, p_category = ''Electronics''\<rparr>,
      \<lparr>p_id = 102, p_name = ''Mouse'', p_price = 29.99, p_stock = 50, p_category = ''Electronics''\<rparr>,
      \<lparr>p_id = 103, p_name = ''Keyboard'', p_price = 79.99, p_stock = 30, p_category = ''Electronics''\<rparr>,
      \<lparr>p_id = 104, p_name = ''Monitor'', p_price = 299.99, p_stock = 8, p_category = ''Electronics''\<rparr>,
      \<lparr>p_id = 105, p_name = ''Desk Chair'', p_price = 199.99, p_stock = 12, p_category = ''Furniture''\<rparr>,
      \<lparr>p_id = 106, p_name = ''Desk'', p_price = 399.99, p_stock = 5, p_category = ''Furniture''\<rparr>]"
  by (simp add: DatabasePlugin_def)

lemma orders_table:
  "orders DatabasePlugin =
     [\<lparr>o_id = 1001, o_user_id = 1, o_product_id = 101, o_quantity = 1, o_status = ''Delivered''\<rparr>,
      \<lparr>o_id = 1002, o_user_id = 2, o_product_id = 102, o_quantity = 2, o_status = ''Shipped''\<rparr>,
      \<lparr>o_id = 1003, o_user_id = 1, o_product_id = 104, o_quantity = 1, o_status = ''Processing''\<rparr>,
      \<lparr>o_id = 1004, o_user_id = 4, o_product_id = 105, o_quantity = 3, o_status = ''Delivered''\<rparr>]"
  by (simp add: DatabasePlugin_def)

lemma products_distinct: "distinct (map p_id (products DatabasePlugin))"
  by (simp add: products_table)

lemma products_stock_nonneg: "p \<in> set (products DatabasePlugin) \<Longrightarrow> 0 \<le> p_stock p"
  by (auto simp: products_table)

lemma inventory_lines:
  "inventory_line \<lparr>p_id = 101, p_name = ''Laptop'', p_price = 999.99, p_stock = 15, p_category = ''Electronics''\<rparr>
     = ''Laptop: 15 units '' @ times_sign @ '' $999.99 = $14999.85\<newline>''"
  "inventory_line \<lparr>p_id = 102, p_name = ''Mouse'', p_price = 29.99, p_stock = 50, p_category = ''Electronics''\<rparr>
     = ''Mouse: 50 units '' @ times_sign @ '' $29.99 = $1499.50\<newline>''"
  "inventory_line \<lparr>p_id = 103, p_name = ''Keyboard'', p_price = 79.99, p_stock = 30, p_category = ''Electronics''\<rparr>
     = ''Keyboard: 30 units '' @ times_sign @ '' $79.99 = $2399.70\<newline>''"
  "inventory_line \<lparr>p_id = 104, p_name = ''Monitor'', p_price = 299.99, p_stock = 8, p_category = ''Electronics''\<rparr>
     = ''Monitor: 8 units '' @ times_sign @ '' $299.99 = $2399.92\<newline>''"
  "inventory_line \<lparr>p_id = 105, p_name = ''Desk Chair'', p_price = 199.99, p_stock = 12, p_category = ''Furniture''\<rparr>
     = ''Desk Chair: 12 units '' @ times_sign @ '' $199.99 = $2399.88\<newline>''"
  "inventory_line \<lparr>p_id = 106, p_name = ''Desk'', p_price = 399.99, p_stock = 5, p_category = ''Furniture''\<rparr>
     = ''Desk: 5 units '' @ times_sign @ '' $399.99 = $1999.95\<newline>''"
  by (simp_all add: inventory_line_def str_nat_eval str_float_def fmt_2f_def round_half_even_def)

lemma total_value_eq:
  "foldl (\<lambda>acc p. acc + p_price p * of_int (p_stock p)) 0 (products DatabasePlugin) =
     999.99 * 15 + 29.99 * 50 + 79.99 * 30 + 299.99 * 8 + 199.99 * 12 + 399.99 * 5"
  by (simp add: products_table)

lemma fmt_total:
  "fmt_2f (999.99 * 15 + 29.99 * 50 + 79.99 * 30 + 299.99 * 8 + 199.99 * 12 + 399.99 * 5) =
     ''25698.80''"
  by (simp add: str_nat_eval fmt_2f_def round_half_even_def)

text \<open>
  The total printed does not depend on the exact value of the sum: every number within
  \<open>0.004\<close> of it is formatted to the same digits, so a sum of floats, which differs from
  the real sum by far less, prints the same text.
\<close>

lemma round_half_even_near:
  assumes "\<bar>y - of_int c\<bar> < 2 / 5"
  shows "round_half_even y = c"
proof (cases "of_int c \<le> y")
  case True
  then have "\<lfloor>y\<rfloor> = c" using assms by (intro floor_unique) linarith+
  then show ?thesis using assms True by (simp add: round_half_even_def Let_def)
next
  case False
  have "of_int (c - 1) \<le> y" "y < of_int (c - 1) + 1"
    using assms False by (simp_all add: abs_less_iff)
  then have fl: "\<lfloor>y\<rfloor> = c - 1" by (rule floor_unique)
  have "1 / 2 < y - of_int (c - 1)" using assms False by (simp add: abs_less_iff)
  then show ?thesis using fl by (simp add: round_half_even_def Let_def)
qed

lemma fmt_2f_near:
  assumes "0 < c" and "\<bar>x * 100 - of_int c\<bar> < 2 / 5"
  shows "fmt_2f x = fmt_2f (of_int c / 100)"
proof -
  have "1 \<le> c" using assms(1) by simp
  then have "(1::real) \<le> of_int c" by linarith
  then have pos: "0 < x" using assms(2) by linarith
  have a: "round_half_even (\<bar>x\<bar> * 100) = c"
    using pos assms(2) by (intro round_half_even_near) simp
  have b: "round_half_even (\<bar>of_int c / 100\<bar> * 100) = c"
    using assms(1) by (intro round_half_even_near) simp
  have "\<not> x < 0" "\<not> (of_int c / 100 :: real) < 0" using pos assms(1) by simp_all
  then show ?thesis unfolding fmt_2f_def a b Let_def by simp
qed

lemma fmt_total_stable:
  assumes "\<bar>x - (999.99 * 15 + 29.99 * 50 + 79.99 * 30 + 299.99 * 8 + 199.99 * 12 + 399.99 * 5)\<bar>
             < 1 / 250"
  shows "fmt_2f x = ''25698.80''"
proof -
  have total: "999.99 * 15 + 29.99 * 50 + 79.99 * 30 + 299.99 * 8 + 199.99 * 12 + 399.99 * 5 =
      (128494 / 5 :: real)"
    by simp
  have "\<bar>x - 128494 / 5\<bar> < 1 / 250" using assms unfolding total .
  then have "\<bar>x * 100 - 2569880\<bar> < 2 / 5" by linarith
  then have "\<bar>x * 100 - of_int 2569880\<bar> < 2 / 5" by simp
  then have "fmt_2f x = fmt_2f (of_int 2569880 / 100)" by (intro fmt_2f_near) simp_all
  also have "\<dots> = ''25698.80''"
    by (simp add: str_nat_eval fmt_2f_def round_half_even_def)
  finally show ?thesis .
qed

text \<open>
  Claim C4. On the fixed product table the total is the sum of price times stock,
  \<open>999.99 * 15 + 29.99 * 50 + 79.99 * 30 + 299.99 * 8 + 199.99 * 12 + 399.99 * 5\<close>, and
  \<open>get_total_inventory_value\<close> reports one line per product followed by that total with
  two decimals, \<open>25698.80\<close>.
\<close>

theorem inventory_total:
  "foldl (\<lambda>acc p. acc + p_price p * of_int (p_stock p)) 0 (products DatabasePlugin) =
     999.99 * 15 + 29.99 * 50 + 79.99 * 30 + 299.99 * 8 + 199.99 * 12 + 399.99 * 5 \<and>
   get_total_inventory_value DatabasePlugin =
     ''Inventory Summary:\<newline>\<newline>'' @
     ''Laptop: 15 units '' @ times_sign @ '' $999.99 = $14999.85\<newline>'' @
     ''Mouse: 50 units '' @ times_sign @ '' $29.99 = $1499.50\<newline>'' @
     ''Keyboard: 30 units '' @ times_sign @ '' $79.99 = $2399.70\<newline>'' @
     ''Monitor: 8 units '' @ times_sign @ '' $299.99 = $2399.92\<newline>'' @
     ''Desk Chair: 12 units '' @ times_sign @ '' $199.99 = $2399.88\<newline>'' @
     ''Desk: 5 units '' @ times_sign @ '' $399.99 = $1999.95\<newline>'' @
     ''\<newline>Total Inventory Value: $25698.80''"
proof
  show "foldl (\<lambda>acc p. acc + p_price p * of_int (p_stock p)) 0 (products DatabasePlugin) =
     999.99 * 15 + 29.99 * 50 + 79.99 * 30 + 299.99 * 8 + 199.99 * 12 + 399.99 * 5"
    by (rule total_value_eq)
next
  have lines: "foldl (\<lambda>result product. result @ inventory_line product)
      ''Inventory Summary:\<newline>\<newline>'' (products DatabasePlugin) =
     ''Inventory Summary:\<newline>\<newline>'' @
     ''Laptop: 15 units '' @ times_sign @ '' $999.99 = $14999.85\<newline>'' @
     ''Mouse: 50 units '' @ times_sign @ '' $29.99 = $1499.50\<newline>'' @
     ''Keyboard: 30 units '' @ times_sign @ '' $79.99 = $2399.70\<newline>'' @
     ''Monitor: 8 units '' @ times_sign @ '' $299.99 = $2399.92\<newline>'' @
     ''Desk Chair: 12 units '' @ times_sign @ '' $199.99 = $2399.88\<newline>'' @
     ''Desk: 5 units '' @ times_sign @ '' $399.99 = $1999.95\<newline>''"
    unfolding foldl_append_lines products_table
    by (simp only: list.map concat.simps inventory_lines append_Nil2 append_assoc)
  show "get_total_inventory_value DatabasePlugin =
     ''Inventory Summary:\<newline>\<newline>'' @
     ''Laptop: 15 units '' @ times_sign @ '' $999.99 = $14999.85\<newline>'' @
     ''Mouse: 50 units '' @ times_sign @ '' $29.99 = $1499.50\<newline>'' @
     ''Keyboard: 30 units '' @ times_sign @ '' $79.99 = $2399.70\<newline>'' @
     ''Monitor: 8 units '' @ times_sign @ '' $299.99 = $2399.92\<newline>'' @
     ''Desk Chair: 12 units '' @ times_sign @ '' $199.99 = $2399.88\<newline>'' @
     ''Desk: 5 units '' @ times_sign @ '' $399.99 = $1999.95\<newline>'' @
     ''\<newline>Total Inventory Value: $25698.80''"
    unfolding get_total_inventory_value_def Let_def lines total_value_eq fmt_total
    by simp
qed

lemma user_one_filter:
  "filter (\<lambda>ord. o_user_id ord = 1) (orders DatabasePlugin) =
     [\<lparr>o_id = 1001, o_user_id = 1, o_product_id = 101, o_quantity = 1, o_status = ''Delivered''\<rparr>,
      \<lparr>o_id = 1003, o_user_id = 1, o_product_id = 104, o_quantity = 1, o_status = ''Processing''\<rparr>]"
  by (simp add: orders_table)

lemma user_one_lines:
  "order_line DatabasePlugin
     \<lparr>o_id = 1001, o_user_id = 1, o_product_id = 101, o_quantity = 1, o_status = ''Delivered''\<rparr> =
   ''Order ID: 1001, Product: Laptop, Quantity: 1, Status: Delivered\<newline>''"
  "order_line DatabasePlugin
     \<lparr>o_id = 1003, o_user_id = 1, o_product_id = 104, o_quantity = 1, o_status = ''Processing''\<rparr> =
   ''Order ID: 1003, Product: Monitor, Quantity: 1, Status: Processing\<newline>''"
  by (simp_all add: order_line_def products_table str_nat_eval)

lemma get_user_orders_lines:
  "get_user_orders self user_id =
     (if filter (\<lambda>ord. o_user_id ord = user_id) (orders self) = []
      then ''No orders found for user ID '' @ str_int user_id @ ''.''
      else ''Orders for User ID '' @ str_int user_id @ '':\<newline>\<newline>'' @
           concat (map (order_line self) (filter (\<lambda>ord. o_user_id ord = user_id) (orders self))))"
  unfolding get_user_orders_def Let_def foldl_append_lines by (simp only: append_assoc)

text \<open>
  Claim C5. On the fixed tables the orders of user 1 are exactly the two with ids 1001 and
  1003, and \<open>get_user_orders\<close> reports each with its product, quantity and status.
\<close>

theorem user_one_orders:
  "map o_id (filter (\<lambda>ord. o_user_id ord = 1) (orders DatabasePlugin)) = [1001, 1003] \<and>
   get_user_orders DatabasePlugin 1 =
     ''Orders for User ID 1:\<newline>\<newline>'' @
     ''Order ID: 1001, Product: Laptop, Quantity: 1, Status: Delivered\<newline>'' @
     ''Order ID: 1003, Product: Monitor, Quantity: 1, Status: Processing\<newline>''"
proof
  show "map o_id (filter (\<lambda>ord. o_user_id ord = 1) (orders DatabasePlugin)) = [1001, 1003]"
    by (simp add: user_one_filter)
next
  have one: "str_int 1 = ''1''" by (simp add: str_nat_eval)
  show "get_user_orders DatabasePlugin 1 =
     ''Orders for User ID 1:\<newline>\<newline>'' @
     ''Order ID: 1001, Product: Laptop, Quantity: 1, Status: Delivered\<newline>'' @
     ''Order ID: 1003, Product: Monitor, Quantity: 1, Status: Processing\<newline>''"
    unfolding get_user_orders_lines user_one_filter
    by (simp add: user_one_lines one)
qed

text \<open>
  Claim C6. For every plugin state and user id, \<open>get_user_orders\<close> keeps the orders of
  that user and reports one line per order; the line of an order whose product id is in no
  row of the product table names the product \<open>Unknown\<close>, and the line of an order
  whose product id is that of a row (ids being distinct) names that row's product. The
  result is a report in every case.
\<close>

theorem user_orders_join:
  "get_user_orders self user_id =
     (if filter (\<lambda>ord. o_user_id ord = user_id) (orders self) = []
      then ''No orders found for user ID '' @ str_int user_id @ ''.''
      else ''Orders for User ID '' @ str_int user_id @ '':\<newline>\<newline>'' @
           concat (map (order_line self) (filter (\<lambda>ord. o_user_id ord = user_id) (orders self)))) \<and>
   ((\<forall>p\<in>set (products self). p_id p \<noteq> o_product_id ord) \<longrightarrow>
      order_line self ord =
        ''Order ID: '' @ str_int (o_id ord) @ '', Product: Unknown'' @
        '', Quantity: '' @ str_int (o_quantity ord) @
        '', Status: '' @ o_status ord @ ''\<newline>'') \<and>
   (distinct (map p_id (products self)) \<and> p \<in> set (products self) \<and>
    p_id p = o_product_id ord \<longrightarrow>
      order_line self ord =
        ''Order ID: '' @ str_int (o_id ord) @ '', Product: '' @ p_name p @
        '', Quantity: '' @ str_int (o_quantity ord) @
        '', Status: '' @ o_status ord @ ''\<newline>'')"
proof (intro conjI impI)
  show "get_user_orders self user_id =
     (if filter (\<lambda>ord. o_user_id ord = user_id) (orders self) = []
      then ''No orders found for user ID '' @ str_int user_id @ ''.''
      else ''Orders for User ID '' @ str_int user_id @ '':\<newline>\<newline>'' @
           concat (map (order_line self) (filter (\<lambda>ord. o_user_id ord = user_id) (orders self))))"
    by (rule get_user_orders_lines)
next
  assume "\<forall>p\<in>set (products self). p_id p \<noteq> o_product_id ord"
  then have "find (\<lambda>p. p_id p = o_product_id ord) (products self) = None"
    by (rule find_absent)
  then show "order_line self ord =
        ''Order ID: '' @ str_int (o_id ord) @ '', Product: Unknown'' @
        '', Quantity: '' @ str_int (o_quantity ord) @
        '', Status: '' @ o_status ord @ ''\<newline>''"
    by (simp add: order_line_def)
next
  assume a: "distinct (map p_id (products self)) \<and> p \<in> set (products self) \<and>
    p_id p = o_product_id ord"
  then have "find (\<lambda>q. p_id q = o_product_id ord) (products self) = Some p"
    by (intro find_unique) simp_all
  then show "order_line self ord =
        ''Order ID: '' @ str_int (o_id ord) @ '', Product: '' @ p_name p @
        '', Quantity: '' @ str_int (o_quantity ord) @
        '', Status: '' @ o_status ord @ ''\<newline>''"
    by (simp add: order_line_def)
qed

theorem user_orders_join_witness:
  "o_product_id \<lparr>o_id = 2000, o_user_id = 9, o_product_id = 999,
        o_quantity = 2, o_status = ''Shipped''\<rparr>
      \<notin> set (map p_id (products (DatabasePlugin\<lparr>orders :=
        [\<lparr>o_id = 2000, o_user_id = 9, o_product_id = 999, o_quantity = 2,
          o_status = ''Shipped''\<rparr>]\<rparr>))) \<and>
   get_user_orders (DatabasePlugin\<lparr>orders :=
        [\<lparr>o_id = 2000, o_user_id = 9, o_product_id = 999, o_quantity = 2,
          o_status = ''Shipped''\<rparr>]\<rparr>) 9 =
     ''Orders for User ID 9:\<newline>\<newline>'' @
     ''Order ID: 2000, Product: Unknown, Quantity: 2, Status: Shipped\<newline>'' \<and>
   (distinct (map p_id (products DatabasePlugin)) \<and>
    \<lparr>p_id = 104, p_name = ''Monitor'', p_price = 299.99, p_stock = 8,
      p_category = ''Electronics''\<rparr> \<in> set (products DatabasePlugin) \<and>
    p_id \<lparr>p_id = 104, p_name = ''Monitor'', p_price = 299.99, p_stock = 8,
      p_category = ''Electronics''\<rparr> =
    o_product_id \<lparr>o_id = 1003, o_user_id = 1, o_product_id = 104, o_quantity = 1,
      o_status = ''Processing''\<rparr>) \<and>
   order_line DatabasePlugin \<lparr>o_id = 1003, o_user_id = 1, o_product_id = 104,
      o_quantity = 1, o_status = ''Processing''\<rparr> =
     ''Order ID: 1003, Product: Monitor, Quantity: 1, Status: Processing\<newline>''"
proof -
  let ?dangling = "\<lparr>o_id = 2000, o_user_id = 9, o_product_id = 999, o_quantity = 2,
          o_status = ''Shipped''\<rparr>"
  let ?self = "DatabasePlugin\<lparr>orders := [?dangling]\<rparr>"
  let ?monitor = "\<lparr>p_id = 104, p_name = ''Monitor'', p_price = 299.99, p_stock = 8,
      p_category = ''Electronics''\<rparr>"
  let ?ord = "\<lparr>o_id = 1003, o_user_id = 1, o_product_id = 104, o_quantity = 1,
      o_status = ''Processing''\<rparr>"
  have absent: "\<forall>p\<in>set (products ?self). p_id p \<noteq> o_product_id ?dangling"
    by (simp add: products_table)
  have line: "order_line ?self ?dangling =
      ''Order ID: 2000, Product: Unknown, Quantity: 2, Status: Shipped\<newline>''"
    using user_orders_join [of ?self 9 ?dangling] absent by (simp add: str_nat_eval)
  have nine: "str_int 9 = ''9''" by (simp add: str_nat_eval)
  have all: "get_user_orders ?self 9 =
     ''Orders for User ID 9:\<newline>\<newline>'' @
     ''Order ID: 2000, Product: Unknown, Quantity: 2, Status: Shipped\<newline>''"
    using user_orders_join [of ?self 9 ?dangling] by (simp add: line nine)
  have present: "distinct (map p_id (products DatabasePlugin)) \<and>
      ?monitor \<in> set (products DatabasePlugin) \<and> p_id ?monitor = o_product_id ?ord"
    by (simp add: products_table)
  have joined: "order_line DatabasePlugin ?ord =
     ''Order ID: 1003, Product: Monitor, Quantity: 1, Status: Processing\<newline>''"
    using user_orders_join [of DatabasePlugin 1 ?ord ?monitor] present
    by (simp add: str_nat_eval)
  have absent_list: "o_product_id ?dangling \<notin> set (map p_id (products ?self))"
    by (simp add: products_table)
  show ?thesis using absent_list all present joined by blast
qed

lemma check_stock_found:
  "find (\<lambda>p. p_id p = product_id) (products self) = Some product \<Longrightarrow>
   check_stock self product_id quantity =
     (if quantity \<le> p_stock product
      then check_mark @ '' '' @ p_name product @ '' has '' @ str_int (p_stock product) @
           '' units in stock. '' @ str_int quantity @ '' units available.''
      else cross_mark @ '' '' @ p_name product @ '' only has '' @
           str_int (p_stock product) @ '' units in stock. Cannot fulfill order for '' @
           str_int quantity @ '' units.'')"
  by (simp add: check_stock_def)

lemma marks_differ: "take 3 (cross_mark @ s) \<noteq> check_mark" "take 3 (check_mark @ s) = check_mark"
  by (simp_all add: check_mark_def cross_mark_def)

text \<open>
  Claim C9. For every product of the fixed table and every integer quantity,
  \<open>check_stock\<close> reports sufficiency (the message that starts with the check mark)
  exactly when the quantity is at most the stock; a request for exactly the stock is
  sufficient, and so is every quantity that is zero or negative.
\<close>

theorem check_stock_sufficiency:
  "product \<in> set (products DatabasePlugin) \<longrightarrow>
     check_stock DatabasePlugin (p_id product) quantity =
       (if quantity \<le> p_stock product
        then check_mark @ '' '' @ p_name product @ '' has '' @ str_int (p_stock product) @
             '' units in stock. '' @ str_int quantity @ '' units available.''
        else cross_mark @ '' '' @ p_name product @ '' only has '' @
             str_int (p_stock product) @ '' units in stock. Cannot fulfill order for '' @
             str_int quantity @ '' units.'') \<and>
     (take 3 (check_stock DatabasePlugin (p_id product) quantity) = check_mark
        \<longleftrightarrow> quantity \<le> p_stock product) \<and>
     take 3 (check_stock DatabasePlugin (p_id product) (p_stock product)) = check_mark \<and>
     (quantity \<le> 0 \<longrightarrow>
        take 3 (check_stock DatabasePlugin (p_id product) quantity) = check_mark)"
proof
  assume mem: "product \<in> set (products DatabasePlugin)"
  have found: "find (\<lambda>p. p_id p = p_id product) (products DatabasePlugin) = Some product"
    using products_distinct mem by (rule find_unique) (rule refl)
  note eq = check_stock_found [OF found]
  have nonneg: "0 \<le> p_stock product" using mem by (rule products_stock_nonneg)
  have iff: "take 3 (check_stock DatabasePlugin (p_id product) q) = check_mark
        \<longleftrightarrow> q \<le> p_stock product" for q
    unfolding eq [of q] using marks_differ by (cases "q \<le> p_stock product") simp_all
  have exact: "take 3 (check_stock DatabasePlugin (p_id product) (p_stock product)) = check_mark"
    using iff [of "p_stock product"] by simp
  have nonpos: "take 3 (check_stock DatabasePlugin (p_id product) quantity) = check_mark"
    if "quantity \<le> 0"
    using iff [of quantity] that nonneg by simp
  show "check_stock DatabasePlugin (p_id product) quantity =
       (if quantity \<le> p_stock product
        then check_mark @ '' '' @ p_name product @ '' has '' @ str_int (p_stock product) @
             '' units in stock. '' @ str_int quantity @ '' units available.''
        else cross_mark @ '' '' @ p_name product @ '' only has '' @
             str_int (p_stock product) @ '' units in stock. Cannot fulfill order for '' @
             str_int quantity @ '' units.'') \<and>
     (take 3 (check_stock DatabasePlugin (p_id product) quantity) = check_mark
        \<longleftrightarrow> quantity \<le> p_stock product) \<and>
     take 3 (check_stock DatabasePlugin (p_id product) (p_stock product)) = check_mark \<and>
     (quantity \<le> 0 \<longrightarrow>
        take 3 (check_stock DatabasePlugin (p_id product) quantity) = check_mark)"
    using eq [of quantity] iff [of quantity] exact nonpos by blast
qed

theorem check_stock_sufficiency_witness:
  "\<lparr>p_id = 104, p_name = ''Monitor'', p_price = 299.99, p_stock = 8,
      p_category = ''Electronics''\<rparr> \<in> set (products DatabasePlugin) \<and>
   check_stock DatabasePlugin 104 8 =
     check_mark @ '' Monitor has 8 units in stock. 8 units available.'' \<and>
   check_stock DatabasePlugin 104 9 =
     cross_mark @ '' Monitor only has 8 units in stock. Cannot fulfill order for 9 units.'' \<and>
   (- 3 \<le> (0::int) \<and>
    check_stock DatabasePlugin 104 (- 3) =
      check_mark @ '' Monitor has 8 units in stock. -3 units available.'')"
proof -
  let ?monitor = "\<lparr>p_id = 104, p_name = ''Monitor'', p_price = 299.99, p_stock = 8,
      p_category = ''Electronics''\<rparr>"
  have mem: "?monitor \<in> set (products DatabasePlugin)"
    by (simp add: products_table)
  have exact: "check_stock DatabasePlugin 104 8 =
     check_mark @ '' Monitor has 8 units in stock. 8 units available.''"
    using check_stock_sufficiency [of ?monitor 8] mem by (simp add: str_nat_eval)
  have over: "check_stock DatabasePlugin 104 9 =
     cross_mark @ '' Monitor only has 8 units in stock. Cannot fulfill order for 9 units.''"
    using check_stock_sufficiency [of ?monitor 9] mem by (simp add: str_nat_eval)
  have neg: "check_stock DatabasePlugin 104 (- 3) =
      check_mark @ '' Monitor has 8 units in stock. -3 units available.''"
    using check_stock_sufficiency [of ?monitor "- 3"] mem by (simp add: str_nat_eval)
  show ?thesis using mem exact over neg by simp
qed

lemma search_products_all:
  assumes "\<forall>p\<in>set (products self).
             sublist (lower query) (lower (p_name p)) \<or>
             sublist (lower query) (lower (p_category p))"
    and "products self \<noteq> []"
  shows "search_products self query =
           ''Found '' @ str_nat (length (products self)) @ '' product(s):\<newline>\<newline>'' @
           concat (map product_line (products self))"
proof -
  have "filter (\<lambda>p. str_in (lower query) (lower (p_name p)) \<or>
                    str_in (lower query) (lower (p_category p))) (products self)
        = products self"
    using assms(1) by (simp add: str_in_sublist)
  then show ?thesis
    using assms(2) by (simp add: search_products_def foldl_append_lines Let_def)
qed

lemma product_lines:
  "product_line \<lparr>p_id = 101, p_name = ''Laptop'', p_price = 999.99, p_stock = 15, p_category = ''Electronics''\<rparr>
     = ''ID: 101, Name: Laptop, Price: $999.99, Stock: 15\<newline>''"
  "product_line \<lparr>p_id = 102, p_name = ''Mouse'', p_price = 29.99, p_stock = 50, p_category = ''Electronics''\<rparr>
     = ''ID: 102, Name: Mouse, Price: $29.99, Stock: 50\<newline>''"
  "product_line \<lparr>p_id = 103, p_name = ''Keyboard'', p_price = 79.99, p_stock = 30, p_category = ''Electronics''\<rparr>
     = ''ID: 103, Name: Keyboard, Price: $79.99, Stock: 30\<newline>''"
  "product_line \<lparr>p_id = 104, p_name = ''Monitor'', p_price = 299.99, p_stock = 8, p_category = ''Electronics''\<rparr>
     = ''ID: 104, Name: Monitor, Price: $299.99, Stock: 8\<newline>''"
  "product_line \<lparr>p_id = 105, p_name = ''Desk Chair'', p_price = 199.99, p_stock = 12, p_category = ''Furniture''\<rparr>
     = ''ID: 105, Name: Desk Chair, Price: $199.99, Stock: 12\<newline>''"
  "product_line \<lparr>p_id = 106, p_name = ''Desk'', p_price = 399.99, p_stock = 5, p_category = ''Furniture''\<rparr>
     = ''ID: 106, Name: Desk, Price: $399.99, Stock: 5\<newline>''"
  by (simp_all add: product_line_def str_nat_eval str_float_def)

lemma full_listing:
  "''Found '' @ str_nat (length (products DatabasePlugin)) @ '' product(s):\<newline>\<newline>'' @
     concat (map product_line (products DatabasePlugin)) =
   ''Found 6 product(s):\<newline>\<newline>'' @
   ''ID: 101, Name: Laptop, Price: $999.99, Stock: 15\<newline>'' @
   ''ID: 102, Name: Mouse, Price: $29.99, Stock: 50\<newline>'' @
   ''ID: 103, Name: Keyboard, Price: $79.99, Stock: 30\<newline>'' @
   ''ID: 104, Name: Monitor, Price: $299.99, Stock: 8\<newline>'' @
   ''ID: 105, Name: Desk Chair, Price: $199.99, Stock: 12\<newline>'' @
   ''ID: 106, Name: Desk, Price: $399.99, Stock: 5\<newline>''"
proof -
  have six: "str_nat (length (products DatabasePlugin)) = ''6''"
    by (simp add: products_table str_nat.simps digit_char_def)
  show ?thesis
    unfolding six unfolding products_table
    by (simp only: list.map concat.simps product_lines append_Nil2 append_assoc) simp
qed

text \<open>
  Claim C10. \<open>search_products\<close> with the empty query lists all six products of the fixed
  table after the count; and every query whose lower-case form is a substring of the
  lowered name or the lowered category of every product returns that same full listing.
\<close>

theorem search_products_full_table:
  "search_products DatabasePlugin '''' =
     ''Found 6 product(s):\<newline>\<newline>'' @
     ''ID: 101, Name: Laptop, Price: $999.99, Stock: 15\<newline>'' @
     ''ID: 102, Name: Mouse, Price: $29.99, Stock: 50\<newline>'' @
     ''ID: 103, Name: Keyboard, Price: $79.99, Stock: 30\<newline>'' @
     ''ID: 104, Name: Monitor, Price: $299.99, Stock: 8\<newline>'' @
     ''ID: 105, Name: Desk Chair, Price: $199.99, Stock: 12\<newline>'' @
     ''ID: 106, Name: Desk, Price: $399.99, Stock: 5\<newline>'' \<and>
   ((\<forall>p\<in>set (products DatabasePlugin).
        sublist (lower query) (lower (p_name p)) \<or>
        sublist (lower query) (lower (p_category p))) \<longrightarrow>
      search_products DatabasePlugin query = search_products DatabasePlugin '''')"
proof -
  have nonempty: "products DatabasePlugin \<noteq> []" by (simp add: products_table)
  have "\<forall>p\<in>set (products DatabasePlugin).
          sublist (lower '''') (lower (p_name p)) \<or> sublist (lower '''') (lower (p_category p))"
    by (simp add: lower_def)
  then have empty: "search_products DatabasePlugin '''' =
      ''Found '' @ str_nat (length (products DatabasePlugin)) @ '' product(s):\<newline>\<newline>'' @
      concat (map product_line (products DatabasePlugin))"
    using nonempty by (rule search_products_all)
  have general: "search_products DatabasePlugin query = search_products DatabasePlugin ''''"
    if "\<forall>p\<in>set (products DatabasePlugin).
          sublist (lower query) (lower (p_name p)) \<or> sublist (lower query) (lower (p_category p))"
    using search_products_all [OF that nonempty] empty by simp
  show ?thesis
    using empty general unfolding full_listing by blast
qed

theorem search_products_full_table_witness:
  "list_all (\<lambda>p. sublist (lower ''E'') (lower (p_name p)) \<or>
                  sublist (lower ''E'') (lower (p_category p)))
     (products DatabasePlugin) \<and>
   search_products DatabasePlugin ''E'' =
     ''Found 6 product(s):\<newline>\<newline>'' @
     ''ID: 101, Name: Laptop, Price: $999.99, Stock: 15\<newline>'' @
     ''ID: 102, Name: Mouse, Price: $29.99, Stock: 50\<newline>'' @
     ''ID: 103, Name: Keyboard, Price: $79.99, Stock: 30\<newline>'' @
     ''ID: 104, Name: Monitor, Price: $299.99, Stock: 8\<newline>'' @
     ''ID: 105, Name: Desk Chair, Price: $199.99, Stock: 12\<newline>'' @
     ''ID: 106, Name: Desk, Price: $399.99, Stock: 5\<newline>''"
proof -
  have matches: "\<forall>p\<in>set (products DatabasePlugin).
      sublist (lower ''E'') (lower (p_name p)) \<or>
      sublist (lower ''E'') (lower (p_category p))"
    by (simp add: products_table str_in_sublist [symmetric] case_eval)
  have "search_products DatabasePlugin ''E'' =
     ''Found 6 product(s):\<newline>\<newline>'' @
     ''ID: 101, Name: Laptop, Price: $999.99, Stock: 15\<newline>'' @
     ''ID: 102, Name: Mouse, Price: $29.99, Stock: 50\<newline>'' @
     ''ID: 103, Name: Keyboard, Price: $79.99, Stock: 30\<newline>'' @
     ''ID: 104, Name: Monitor, Price: $299.99, Stock: 8\<newline>'' @
     ''ID: 105, Name: Desk Chair, Price: $199.99, Stock: 12\<newline>'' @
     ''ID: 106, Name: Desk, Price: $399.99, Stock: 5\<newline>''"
    using search_products_full_table [of "''E''"] matches by (elim conjE) simp
  moreover have "list_all (\<lambda>p. sublist (lower ''E'') (lower (p_name p)) \<or>
                  sublist (lower ''E'') (lower (p_category p)))
     (products DatabasePlugin)"
    using matches by (simp only: list_all_iff)
  ultimately show ?thesis by (intro conjI)
qed

end
